theory Spec2Isabelle
  imports Complex_Main
begin

section \<open>Beam analysis: data model\<close>

text \<open>
  The repository's \<^verbatim>\<open>js/beam-analysis.js\<close> computes deflection, bending moment and
  shear force curves of a uniformly loaded beam. JavaScript numbers are modelled as exact
  reals: every formula below is the source expression read in exact arithmetic, so the
  rounding error of binary64 operations and the non-finite values (a division by zero in
  JavaScript gives an infinity or a NaN) are outside this part of the model. The theorems
  therefore keep the spans positive and the rigidity nonzero wherever a quotient is taken.
  The one place where binary64 rounding decides a property, the counter of the sampling
  loop, is modelled a second time in binary64 at the end of the definitions.
\<close>

text \<open>\<^verbatim>\<open>beam.material.properties\<close>: the two properties the analyzers read, \<^verbatim>\<open>EI\<close>
  and \<^verbatim>\<open>j2\<close>, in this order.\<close>

datatype properties = Properties real real

text \<open>\<^verbatim>\<open>function Material(name, properties)\<close>.\<close>

datatype material = Material string properties

text \<open>\<^verbatim>\<open>function Beam(primarySpan, secondarySpan, material)\<close>.\<close>

datatype beam = Beam real real material

text \<open>The object \<^verbatim>\<open>{ x: xValues, y: vValues }\<close> an equation method returns, as the
  pair of its two arrays.\<close>

type_synonym equation = "real list \<times> real list"

text \<open>The object \<^verbatim>\<open>{ beam, load, equation }\<close> a facade operation returns.\<close>

datatype analysis_result = AnalysisResult beam real equation

section \<open>Rounding to one decimal place\<close>

text \<open>
  \<^verbatim>\<open>parseFloat(v.toFixed(1))\<close>. \<^verbatim>\<open>Number.prototype.toFixed\<close> takes the sign off, picks the
  integer \<open>n\<close> with \<open>n / 10\<close> nearest to the absolute value, the larger \<open>n\<close> on a tie, and
  puts the sign back; \<^verbatim>\<open>parseFloat\<close> reads the decimal string. (From \<open>10\<^sup>2\<^sup>1\<close> on
  \<^verbatim>\<open>toFixed\<close> prints the number itself; every binary64 number of that size is an integer,
  which the formula below leaves unchanged as well.)
\<close>

definition toFixed1 :: "real \<Rightarrow> real" where
  "toFixed1 v =
     (if v < 0 then - (of_int \<lfloor>(- v) * 10 + 1 / 2\<rfloor> / 10)
      else of_int \<lfloor>v * 10 + 1 / 2\<rfloor> / 10)"

section \<open>The two-span analyzer: reactions and pointwise evaluators\<close>

text \<open>\<^verbatim>\<open>calculateSupports\<close> returns the object \<^verbatim>\<open>{ M1, R1, R2, R3 }\<close>, here the tuple
  \<open>(M1, R1, R2, R3)\<close>. \<^verbatim>\<open>Math.pow(a, 3)\<close> is \<open>a ^ 3\<close>.\<close>

definition calculateSupports :: "real \<Rightarrow> real \<Rightarrow> real \<Rightarrow> real \<times> real \<times> real \<times> real" where
  "calculateSupports primarySpan secondarySpan load =
     (let M1 = (- ((load * secondarySpan ^ 3) + (load * primarySpan ^ 3)))
                 / (8 * (primarySpan + secondarySpan));
          R1 = (M1 / primarySpan) + ((load * primarySpan) / 2);
          R3 = (M1 / secondarySpan) + ((load * secondarySpan) / 2);
          R2 = (load * primarySpan) + (load * secondarySpan) - R1 - R3
      in (M1, R1, R2, R3))"

text \<open>\<^verbatim>\<open>calculateBendingMomentValue(x, { primarySpan, totalLength, R1, R2, load })\<close>: the
  four \<^verbatim>\<open>return\<close> statements in the source's order.\<close>

definition calculateBendingMomentValue ::
  "real \<Rightarrow> real \<Rightarrow> real \<Rightarrow> real \<Rightarrow> real \<Rightarrow> real \<Rightarrow> real" where
  "calculateBendingMomentValue x primarySpan totalLength R1 R2 load =
     (if x = 0 \<or> x = totalLength then 0
      else if x < primarySpan then - (R1 * x - 0.5 * load * x ^ 2)
      else if x > primarySpan then - (R1 * x + R2 * (x - primarySpan) - 0.5 * load * x ^ 2)
      else - (R1 * primarySpan - 0.5 * load * primarySpan ^ 2))"

text \<open>\<^verbatim>\<open>calculateShearForceValue(x, { primarySpan, R1, R2, load })\<close>.\<close>

definition calculateShearForceValue :: "real \<Rightarrow> real \<Rightarrow> real \<Rightarrow> real \<Rightarrow> real \<Rightarrow> real" where
  "calculateShearForceValue x primarySpan R1 R2 load =
     (if x < primarySpan then R1 - load * x
      else if x = primarySpan then R2 - load * x
      else R2 - load * (x - primarySpan))"

text \<open>\<^verbatim>\<open>calculateDeflectionValue(x, { primarySpan, secondarySpan, EI, j2, R1, R2, R3, load })\<close>.\<close>

definition calculateDeflectionValue ::
  "real \<Rightarrow> real \<Rightarrow> real \<Rightarrow> real \<Rightarrow> real \<Rightarrow> real \<Rightarrow> real \<Rightarrow> real \<Rightarrow> real \<Rightarrow> real" where
  "calculateDeflectionValue x primarySpan secondarySpan EI j2 R1 R2 R3 load =
     (if x \<le> primarySpan then
        ((x / (24 * EI)) * (4 * R1 * x ^ 2 - load * x ^ 3 + load * primarySpan ^ 3
            - 4 * R1 * primarySpan ^ 2)) * j2 * 1000
      else
        (let span2_x = x - primarySpan in
         (((R1 * x / 6) * (x ^ 2 - primarySpan ^ 2)
            + (R2 * span2_x / 6) * (span2_x ^ 2 - 3 * primarySpan * span2_x + 3 * primarySpan ^ 2)
            - R2 * primarySpan ^ 3 / 6
            - (load * span2_x / 24) * (span2_x ^ 3 - secondarySpan ^ 3)) / EI) * j2 * 1000))"

section \<open>The sampling loop\<close>

text \<open>
  All six equation methods run the same loop,
  \<^verbatim>\<open>for (let i = 0; i <= bound; i += step) { const x = parseFloat(i.toFixed(1));
  xValues.push(x); ...; vValues.push(...) }\<close>, and differ only in the value pushed to
  \<^verbatim>\<open>vValues\<close>, which is computed from the rounded \<open>x\<close>. The loop is modelled once, with that
  computation as the parameter \<open>V\<close>. It need not end (a zero step never leaves \<open>i \<le> bound\<close>),
  so the result is an option: \<open>None\<close> is a call that does not return.
\<close>

partial_function (option) sampleLoop ::
  "(real \<Rightarrow> real) \<Rightarrow> real \<Rightarrow> real \<Rightarrow> real \<Rightarrow> real list \<Rightarrow> real list \<Rightarrow> equation option" where
  "sampleLoop V bound step i xValues vValues =
     (if i \<le> bound then
        (let x = toFixed1 i in
         sampleLoop V bound step (i + step) (xValues @ [x]) (vValues @ [V x]))
      else Some (xValues, vValues))"

section \<open>The simply-supported analyzer\<close>

fun simplySupported_getDeflectionEquation :: "beam \<Rightarrow> real \<Rightarrow> equation option" where
  "simplySupported_getDeflectionEquation (Beam primarySpan secondarySpan (Material name (Properties EI j2))) load =
     (let step = primarySpan / 8 in
      sampleLoop
        (\<lambda>x. let V = - ((load * x) / (24 * EI))
                        * (primarySpan ^ 3 - 2 * primarySpan * x ^ 2 + x ^ 3) * j2 * 1000
             in toFixed1 (V * 1000000000))
        primarySpan step 0 [] [])"

fun simplySupported_getBendingMomentEquation :: "beam \<Rightarrow> real \<Rightarrow> equation option" where
  "simplySupported_getBendingMomentEquation (Beam primarySpan secondarySpan material) load =
     (let step = primarySpan / 10 in
      sampleLoop
        (\<lambda>x. let V = (load * x / 2) * (primarySpan - x) * (- 1) in toFixed1 V)
        primarySpan step 0 [] [])"

fun simplySupported_getShearForceEquation :: "beam \<Rightarrow> real \<Rightarrow> equation option" where
  "simplySupported_getShearForceEquation (Beam primarySpan secondarySpan material) load =
     (let step = primarySpan / 10 in
      sampleLoop
        (\<lambda>x. let V = load * (primarySpan / 2 - x) in toFixed1 V)
        primarySpan step 0 [] [])"

section \<open>The two-span analyzer: equation methods\<close>

fun twoSpanUnequal_getDeflectionEquation :: "beam \<Rightarrow> real \<Rightarrow> equation option" where
  "twoSpanUnequal_getDeflectionEquation (Beam primarySpan secondarySpan (Material name (Properties EI j2))) load =
     (let totalLength = primarySpan + secondarySpan;
          (M1, R1, R2, R3) = calculateSupports primarySpan secondarySpan load;
          step = totalLength / 1000 in
      sampleLoop
        (\<lambda>x. let V = calculateDeflectionValue x primarySpan secondarySpan EI j2 R1 R2 R3 load
             in toFixed1 (V * 1000000000))
        totalLength step 0 [] [])"

fun twoSpanUnequal_getBendingMomentEquation :: "beam \<Rightarrow> real \<Rightarrow> equation option" where
  "twoSpanUnequal_getBendingMomentEquation (Beam primarySpan secondarySpan material) load =
     (let totalLength = primarySpan + secondarySpan;
          (M1, R1, R2, R3) = calculateSupports primarySpan secondarySpan load;
          step = totalLength / 1000 in
      sampleLoop
        (\<lambda>x. let V = calculateBendingMomentValue x primarySpan totalLength R1 R2 load
             in toFixed1 V)
        totalLength step 0 [] [])"

fun twoSpanUnequal_getShearForceEquation :: "beam \<Rightarrow> real \<Rightarrow> equation option" where
  "twoSpanUnequal_getShearForceEquation (Beam primarySpan secondarySpan material) load =
     (let totalLength = primarySpan + secondarySpan;
          (M1, R1, R2, R3) = calculateSupports primarySpan secondarySpan load;
          step = totalLength / 1000 in
      sampleLoop
        (\<lambda>x. let V = calculateShearForceValue x primarySpan R1 R2 load in toFixed1 V)
        totalLength step 0 [] [])"

section \<open>The facade\<close>

text \<open>
  \<^verbatim>\<open>BeamAnalysis\<close> keeps its analyzers in an object literal with the two own keys
  \<^verbatim>\<open>'simply-supported'\<close> and \<^verbatim>\<open>'two-span-unequal'\<close>, and every facade operation starts with
  \<^verbatim>\<open>var analyzer = this.analyzer[condition]\<close>. A property read on an object also finds the
  properties the object inherits from \<^verbatim>\<open>Object.prototype\<close>; they are functions (and, for
  \<^verbatim>\<open>__proto__\<close>, the prototype object), so \<^verbatim>\<open>if (analyzer)\<close> takes them for an analyzer, and
  the call of their missing equation method raises a \<^verbatim>\<open>TypeError\<close>. Only a key found
  nowhere reads as \<^verbatim>\<open>undefined\<close> and reaches \<^verbatim>\<open>throw new Error('Invalid condition')\<close>.
\<close>

datatype error = InvalidCondition | TypeError

datatype analyzer = SimplySupported | TwoSpanUnequal

datatype property = Analyzer analyzer | Inherited | Undefined

definition Object_prototype_properties :: "string list" where
  "Object_prototype_properties =
     [''constructor'', ''__defineGetter__'', ''__defineSetter__'', ''hasOwnProperty'',
      ''__lookupGetter__'', ''__lookupSetter__'', ''isPrototypeOf'', ''propertyIsEnumerable'',
      ''toString'', ''valueOf'', ''__proto__'', ''toLocaleString'']"

definition analyzer_lookup :: "string \<Rightarrow> property" where
  "analyzer_lookup condition =
     (if condition = ''simply-supported'' then Analyzer SimplySupported
      else if condition = ''two-span-unequal'' then Analyzer TwoSpanUnequal
      else if condition \<in> set Object_prototype_properties then Inherited
      else Undefined)"

text \<open>The equation methods of a registered analyzer.\<close>

fun getDeflectionEquation :: "analyzer \<Rightarrow> beam \<Rightarrow> real \<Rightarrow> equation option" where
  "getDeflectionEquation SimplySupported beam load = simplySupported_getDeflectionEquation beam load"
| "getDeflectionEquation TwoSpanUnequal beam load = twoSpanUnequal_getDeflectionEquation beam load"

fun getBendingMomentEquation :: "analyzer \<Rightarrow> beam \<Rightarrow> real \<Rightarrow> equation option" where
  "getBendingMomentEquation SimplySupported beam load = simplySupported_getBendingMomentEquation beam load"
| "getBendingMomentEquation TwoSpanUnequal beam load = twoSpanUnequal_getBendingMomentEquation beam load"

fun getShearForceEquation :: "analyzer \<Rightarrow> beam \<Rightarrow> real \<Rightarrow> equation option" where
  "getShearForceEquation SimplySupported beam load = simplySupported_getShearForceEquation beam load"
| "getShearForceEquation TwoSpanUnequal beam load = twoSpanUnequal_getShearForceEquation beam load"

text \<open>The three facade operations. The result is \<open>None\<close> when the call does not return,
  \<open>Some (Inl e)\<close> when it throws \<open>e\<close>, and \<open>Some (Inr r)\<close> when it returns \<open>r\<close>.\<close>

definition getDeflection :: "beam \<Rightarrow> real \<Rightarrow> string \<Rightarrow> (error + analysis_result) option" where
  "getDeflection beam load condition =
     (case analyzer_lookup condition of
        Analyzer analyzer \<Rightarrow>
          map_option (\<lambda>equation. Inr (AnalysisResult beam load equation))
            (getDeflectionEquation analyzer beam load)
      | Inherited \<Rightarrow> Some (Inl TypeError)
      | Undefined \<Rightarrow> Some (Inl InvalidCondition))"

definition getBendingMoment :: "beam \<Rightarrow> real \<Rightarrow> string \<Rightarrow> (error + analysis_result) option" where
  "getBendingMoment beam load condition =
     (case analyzer_lookup condition of
        Analyzer analyzer \<Rightarrow>
          map_option (\<lambda>equation. Inr (AnalysisResult beam load equation))
            (getBendingMomentEquation analyzer beam load)
      | Inherited \<Rightarrow> Some (Inl TypeError)
      | Undefined \<Rightarrow> Some (Inl InvalidCondition))"

definition getShearForce :: "beam \<Rightarrow> real \<Rightarrow> string \<Rightarrow> (error + analysis_result) option" where
  "getShearForce beam load condition =
     (case analyzer_lookup condition of
        Analyzer analyzer \<Rightarrow>
          map_option (\<lambda>equation. Inr (AnalysisResult beam load equation))
            (getShearForceEquation analyzer beam load)
      | Inherited \<Rightarrow> Some (Inl TypeError)
      | Undefined \<Rightarrow> Some (Inl InvalidCondition))"

section \<open>Properties of a sampled curve\<close>






section \<open>The sampling loop's counter in binary64\<close>

text \<open>
  JavaScript numbers are binary64 floating-point numbers, and \<^verbatim>\<open>i += step\<close> rounds every sum
  to the nearest one, ties to even. How often the loop runs depends on that rounding, so the
  control of the loop is modelled once more with it. \<open>binary64 r\<close> is the finite binary64
  number nearest to \<open>r\<close>: a multiple of \<open>2\<^sup>e\<close>, where \<open>e\<close> puts the multiplier below \<open>2\<^sup>5\<^sup>3\<close>
  and is at least \<open>-1074\<close> (overflow to an infinity is left out; no value here is near it).
\<close>

definition round_half_even :: "real \<Rightarrow> int" where
  "round_half_even r =
     (let f = \<lfloor>r\<rfloor> in
      if r - of_int f < 1 / 2 then f
      else if 1 / 2 < r - of_int f then f + 1
      else if even f then f else f + 1)"

definition binary64 :: "real \<Rightarrow> real" where
  "binary64 r =
     (if r = 0 then 0
      else (let e = max (\<lfloor>log 2 \<bar>r\<bar>\<rfloor> - 52) (- 1074)
            in of_int (round_half_even (r / 2 powi e)) * 2 powi e))"

text \<open>The loop \<^verbatim>\<open>for (let i = 0; i <= bound; i += step)\<close> with its body reduced to counting the
  samples it pushes.\<close>

partial_function (option) sampleCount64 :: "real \<Rightarrow> real \<Rightarrow> real \<Rightarrow> nat \<Rightarrow> nat option" where
  "sampleCount64 bound step i n =
     (if i \<le> bound then sampleCount64 bound step (binary64 (i + step)) (n + 1) else Some n)"

text \<open>The number of samples \<^verbatim>\<open>simplySupported.getBendingMomentEquation\<close> returns:
  \<^verbatim>\<open>const step = primarySpan / 10\<close>, then the loop from \<open>0\<close>.\<close>

definition simplySupported_getBendingMomentEquation_count64 :: "real \<Rightarrow> nat option" where
  "simplySupported_getBendingMomentEquation_count64 primarySpan =
     (let step = binary64 (primarySpan / 10) in sampleCount64 primarySpan step 0 0)"

section \<open>Rounding and the sampling loop: basic facts\<close>





lemma sampleLoop_unroll:
  "\<lbrakk>\<forall>k<n. i + real k * step \<le> bound; \<not> i + real n * step \<le> bound\<rbrakk> \<Longrightarrow>
   sampleLoop V bound step i xs ys =
     Some (xs @ map (\<lambda>k. toFixed1 (i + real k * step)) [0..<n],
           ys @ map (\<lambda>k. V (toFixed1 (i + real k * step))) [0..<n])"
proof (induction n arbitrary: i xs ys)
  case 0
  then show ?case by (subst sampleLoop.simps) simp
next
  case (Suc n)
  have le: "i \<le> bound" using Suc.prems(1)[rule_format, of 0] by simp
  have a: "\<forall>k<n. (i + step) + real k * step \<le> bound"
  proof (intro allI impI)
    fix k assume "k < n"
    then have "i + real (Suc k) * step \<le> bound" using Suc.prems(1) by (simp del: of_nat_Suc)
    then show "(i + step) + real k * step \<le> bound" by (simp add: algebra_simps)
  qed
  have b: "\<not> (i + step) + real n * step \<le> bound"
    using Suc.prems(2) by (simp add: algebra_simps)
  have shift: "\<And>f::real \<Rightarrow> real. map (\<lambda>k. f (i + real k * step)) [0..<Suc n]
      = f i # map (\<lambda>k. f ((i + step) + real k * step)) [0..<n]"
    by (simp add: upt_conv_Cons map_Suc_upt[symmetric] algebra_simps del: upt_Suc)
  show ?case
    apply (subst sampleLoop.simps)
    apply (simp only: le if_True Let_def Suc.IH[OF a b])
    apply (simp only: shift[of toFixed1] shift[of "\<lambda>x. V (toFixed1 x)"])
    apply simp
    done
qed

lemma sampleLoop_even:
  assumes "0 < L" and "0 < N"
  shows "sampleLoop V L (L / real N) 0 [] [] =
     Some (map (\<lambda>k. toFixed1 (real k * (L / real N))) [0..<Suc N],
           map (\<lambda>k. V (toFixed1 (real k * (L / real N)))) [0..<Suc N])"
proof -
  have N: "0 < real N" using assms(2) by simp
  have a: "\<forall>k<Suc N. 0 + real k * (L / real N) \<le> L"
  proof (intro allI impI)
    fix k assume "k < Suc N"
    then have "real k \<le> real N" by simp
    then have "real k * (L / real N) \<le> real N * (L / real N)"
      using assms(1) N by (intro mult_right_mono) simp_all
    also have "\<dots> = L" using N by simp
    finally show "0 + real k * (L / real N) \<le> L" by simp
  qed
  have "real (Suc N) * (L / real N) = L + L / real N"
    using N by (simp add: field_simps)
  moreover have "0 < L / real N" using assms(1) N by simp
  ultimately have b: "\<not> 0 + real (Suc N) * (L / real N) \<le> L" by linarith
  show ?thesis using sampleLoop_unroll[OF a b, of V "[]" "[]"] by simp
qed

lemma sampleLoop_sound_aux:
  assumes "sampleLoop V bound step i xs ys = Some r"
  shows "length ys = length xs \<and> (\<forall>k<length xs. ys ! k = V (xs ! k)) \<longrightarrow>
         length (snd r) = length (fst r) \<and> (\<forall>k<length (fst r). snd r ! k = V (fst r ! k))"
proof (rule sampleLoop.raw_induct[where P = "\<lambda>V bound step i xs ys r.
         length ys = length xs \<and> (\<forall>k<length xs. ys ! k = V (xs ! k)) \<longrightarrow>
         length (snd r) = length (fst r) \<and> (\<forall>k<length (fst r). snd r ! k = V (fst r ! k))",
       OF _ assms])
  fix loop :: "(real \<Rightarrow> real) \<Rightarrow> real \<Rightarrow> real \<Rightarrow> real \<Rightarrow> real list \<Rightarrow> real list \<Rightarrow> equation option"
  fix V bound step i xs ys r
  assume IH: "\<And>V bound step i xs ys r. loop V bound step i xs ys = Some r \<Longrightarrow>
         length ys = length xs \<and> (\<forall>k<length xs. ys ! k = V (xs ! k)) \<longrightarrow>
         length (snd r) = length (fst r) \<and> (\<forall>k<length (fst r). snd r ! k = V (fst r ! k))"
  assume body: "(if i \<le> bound
      then let x = toFixed1 i in loop V bound step (i + step) (xs @ [x]) (ys @ [V x])
      else Some (xs, ys)) = Some r"
  show "length ys = length xs \<and> (\<forall>k<length xs. ys ! k = V (xs ! k)) \<longrightarrow>
         length (snd r) = length (fst r) \<and> (\<forall>k<length (fst r). snd r ! k = V (fst r ! k))"
  proof (cases "i \<le> bound")
    case True
    with body have call: "loop V bound step (i + step) (xs @ [toFixed1 i]) (ys @ [V (toFixed1 i)]) = Some r"
      by (simp only: if_True Let_def)
    show ?thesis
    proof
      assume inv: "length ys = length xs \<and> (\<forall>k<length xs. ys ! k = V (xs ! k))"
      have l: "length (ys @ [V (toFixed1 i)]) = length (xs @ [toFixed1 i])"
        using inv by simp
      have "(ys @ [V (toFixed1 i)]) ! k = V ((xs @ [toFixed1 i]) ! k)"
        if "k < length (xs @ [toFixed1 i])" for k
      proof (cases "k < length xs")
        case True
        then show ?thesis using inv by (simp add: nth_append)
      next
        case False
        with that have "k = length xs" by simp
        then show ?thesis using inv by (simp add: nth_append)
      qed
      with l IH[OF call]
      show "length (snd r) = length (fst r) \<and> (\<forall>k<length (fst r). snd r ! k = V (fst r ! k))"
        by blast
    qed
  next
    case False
    with body have "r = (xs, ys)" by (simp only: if_False option.inject)
    then show ?thesis by simp
  qed
qed

lemma sampleLoop_sound:
  assumes "sampleLoop V bound step 0 [] [] = Some (xs, ys)"
  shows "length ys = length xs \<and> (\<forall>k<length xs. ys ! k = V (xs ! k))"
  using sampleLoop_sound_aux[OF assms] by simp

lemma sampleLoop_zero_step:
  assumes "i \<le> bound"
  shows "sampleLoop V bound 0 i xs ys = None"
proof -
  have "\<not> (step = 0 \<and> i \<le> bound)" if "sampleLoop V bound step i xs ys = Some r" for step r
  proof (rule sampleLoop.raw_induct[where P = "\<lambda>V bound step i xs ys r. \<not> (step = 0 \<and> i \<le> bound)",
       OF _ that])
    fix loop :: "(real \<Rightarrow> real) \<Rightarrow> real \<Rightarrow> real \<Rightarrow> real \<Rightarrow> real list \<Rightarrow> real list \<Rightarrow> equation option"
    fix V bound step i xs ys r
    assume IH: "\<And>V bound step i xs ys r. loop V bound step i xs ys = Some r \<Longrightarrow>
         \<not> (step = 0 \<and> i \<le> bound)"
    assume body: "(if i \<le> bound
      then let x = toFixed1 i in loop V bound step (i + step) (xs @ [x]) (ys @ [V x])
      else Some (xs, ys)) = Some r"
    show "\<not> (step = 0 \<and> i \<le> bound)"
    proof
      assume z: "step = 0 \<and> i \<le> bound"
      with body have "loop V bound step (i + step) (xs @ [toFixed1 i]) (ys @ [V (toFixed1 i)]) = Some r"
        by (simp only: if_True Let_def)
      from IH[OF this] z show False by simp
    qed
  qed
  then show ?thesis using assms by (cases "sampleLoop V bound 0 i xs ys") auto
qed

section \<open>The reaction solver\<close>



text \<open>
  Claim C1. For positive spans the reaction solver returns
  \<open>M1 = -(w L2\<^sup>3 + w L1\<^sup>3) / (8 (L1 + L2))\<close>, \<open>R1 = M1 / L1 + w L1 / 2\<close>,
  \<open>R3 = M1 / L2 + w L2 / 2\<close> and \<open>R2 = w L1 + w L2 - R1 - R3\<close>; for \<open>L1 = 4\<close>, \<open>L2 = 6\<close>,
  \<open>w = 10\<close> it gives \<open>M1 = -35\<close> and \<open>R1 = 11.25\<close>.
\<close>

theorem calculateSupports_formulas:
  assumes "0 < L1" and "0 < L2"
  shows "(case calculateSupports L1 L2 w of (m, r1, r2, r3) \<Rightarrow>
            m = - (w * L2 ^ 3 + w * L1 ^ 3) / (8 * (L1 + L2)) \<and>
            r1 = m / L1 + w * L1 / 2 \<and>
            r3 = m / L2 + w * L2 / 2 \<and>
            r2 = w * L1 + w * L2 - r1 - r3) \<and>
         (case calculateSupports 4 6 10 of (m, r1, r2, r3) \<Rightarrow> m = - 35 \<and> r1 = 11.25)"
  by (simp add: calculateSupports_def Let_def)

theorem calculateSupports_formulas_witness:
  "(case calculateSupports 4 6 10 of (m, r1, r2, r3) \<Rightarrow>
      m = - (10 * 6 ^ 3 + 10 * 4 ^ 3) / (8 * (4 + 6)) \<and>
      r1 = m / 4 + 10 * 4 / 2 \<and>
      r3 = m / 6 + 10 * 6 / 2 \<and>
      r2 = 10 * 4 + 10 * 6 - r1 - r3) \<and>
   calculateSupports 4 6 10 = (- 35, 45 / 4, 775 / 12, 145 / 6)"
  using calculateSupports_formulas[of 4 6 10] by (simp add: calculateSupports_def Let_def)



section \<open>The pointwise evaluators of the two-span analyzer\<close>






text \<open>
  Claim C4. The two-span bending-moment evaluator returns exactly \<open>0\<close> at \<open>x = 0\<close> and at
  \<open>x = L1 + L2\<close>, whatever the load, the spans and the reactions.
\<close>

theorem twoSpan_moment_boundary_zero:
  "calculateBendingMomentValue 0 L1 (L1 + L2) r1 r2 w = 0 \<and>
   calculateBendingMomentValue (L1 + L2) L1 (L1 + L2) r1 r2 w = 0"
  by (simp add: calculateBendingMomentValue_def)

section \<open>The sampling loop over an evenly divided length\<close>









section \<open>The equation methods as instances of the sampling loop\<close>

lemma ss_moment_eq:
  "simplySupported_getBendingMomentEquation (Beam L s mat) w =
     sampleLoop (\<lambda>x. toFixed1 ((w * x / 2) * (L - x) * (- 1))) L (L / real 10) 0 [] []"
  by (simp add: Let_def)

lemma ss_shear_eq:
  "simplySupported_getShearForceEquation (Beam L s mat) w =
     sampleLoop (\<lambda>x. toFixed1 (w * (L / 2 - x))) L (L / real 10) 0 [] []"
  by (simp add: Let_def)

lemma ss_deflection_eq:
  "simplySupported_getDeflectionEquation (Beam L s (Material n (Properties EI j2))) w =
     sampleLoop
       (\<lambda>x. toFixed1 ((- ((w * x) / (24 * EI)) * (L ^ 3 - 2 * L * x ^ 2 + x ^ 3) * j2 * 1000)
               * 1000000000))
       L (L / real 8) 0 [] []"
  by (simp add: Let_def)

lemma ts_deflection_eq:
  assumes "calculateSupports L1 L2 w = (m, r1, r2, r3)"
  shows "twoSpanUnequal_getDeflectionEquation (Beam L1 L2 (Material n (Properties EI j2))) w =
     sampleLoop
       (\<lambda>x. toFixed1 (calculateDeflectionValue x L1 L2 EI j2 r1 r2 r3 w * 1000000000))
       (L1 + L2) ((L1 + L2) / real 1000) 0 [] []"
  using assms by (simp add: Let_def)

lemma ts_moment_eq:
  assumes "calculateSupports L1 L2 w = (m, r1, r2, r3)"
  shows "twoSpanUnequal_getBendingMomentEquation (Beam L1 L2 mat) w =
     sampleLoop (\<lambda>x. toFixed1 (calculateBendingMomentValue x L1 (L1 + L2) r1 r2 w))
       (L1 + L2) ((L1 + L2) / real 1000) 0 [] []"
  using assms by (simp add: Let_def)

lemma ts_shear_eq:
  assumes "calculateSupports L1 L2 w = (m, r1, r2, r3)"
  shows "twoSpanUnequal_getShearForceEquation (Beam L1 L2 mat) w =
     sampleLoop (\<lambda>x. toFixed1 (calculateShearForceValue x L1 r1 r2 w))
       (L1 + L2) ((L1 + L2) / real 1000) 0 [] []"
  using assms by (simp add: Let_def)






section \<open>The simply-supported analyzer: sampled values\<close>






section \<open>The recorded positions\<close>





section \<open>The two-span analyzer: sampled values\<close>




section \<open>The number of samples\<close>

text \<open>In exact arithmetic the loops take all their samples: 9, 11 and 1001 of them.\<close>

lemma sample_counts_exact:
  assumes "0 < L1" and "0 < L2"
  shows "map_option (length \<circ> fst)
           (simplySupported_getDeflectionEquation (Beam L1 s (Material n (Properties EI j2))) w) = Some 9"
    and "map_option (length \<circ> fst) (simplySupported_getBendingMomentEquation (Beam L1 s mat) w) = Some 11"
    and "map_option (length \<circ> fst) (simplySupported_getShearForceEquation (Beam L1 s mat) w) = Some 11"
    and "map_option (length \<circ> fst)
           (twoSpanUnequal_getDeflectionEquation (Beam L1 L2 (Material n (Properties EI j2))) w) = Some 1001"
    and "map_option (length \<circ> fst) (twoSpanUnequal_getBendingMomentEquation (Beam L1 L2 mat) w) = Some 1001"
    and "map_option (length \<circ> fst) (twoSpanUnequal_getShearForceEquation (Beam L1 L2 mat) w) = Some 1001"
proof -
  obtain m r1 r2 r3 where sup: "calculateSupports L1 L2 w = (m, r1, r2, r3)"
    by (cases "calculateSupports L1 L2 w") auto
  have T: "0 < L1 + L2" using assms by linarith
  have n8: "0 < (8::nat)" and n10: "0 < (10::nat)" and n1000: "0 < (1000::nat)" by simp_all
  show "map_option (length \<circ> fst)
           (simplySupported_getDeflectionEquation (Beam L1 s (Material n (Properties EI j2))) w) = Some 9"
    unfolding ss_deflection_eq sampleLoop_even[OF assms(1) n8] by simp
  show "map_option (length \<circ> fst) (simplySupported_getBendingMomentEquation (Beam L1 s mat) w) = Some 11"
    unfolding ss_moment_eq sampleLoop_even[OF assms(1) n10] by simp
  show "map_option (length \<circ> fst) (simplySupported_getShearForceEquation (Beam L1 s mat) w) = Some 11"
    unfolding ss_shear_eq sampleLoop_even[OF assms(1) n10] by simp
  show "map_option (length \<circ> fst)
           (twoSpanUnequal_getDeflectionEquation (Beam L1 L2 (Material n (Properties EI j2))) w) = Some 1001"
    unfolding ts_deflection_eq[OF sup] sampleLoop_even[OF T n1000] by simp
  show "map_option (length \<circ> fst) (twoSpanUnequal_getBendingMomentEquation (Beam L1 L2 mat) w) = Some 1001"
    unfolding ts_moment_eq[OF sup] sampleLoop_even[OF T n1000] by simp
  show "map_option (length \<circ> fst) (twoSpanUnequal_getShearForceEquation (Beam L1 L2 mat) w) = Some 1001"
    unfolding ts_shear_eq[OF sup] sampleLoop_even[OF T n1000] by simp
qed

text \<open>Rounding to binary64 at a number whose binade is known.\<close>

lemma binary64_eval:
  assumes "0 < r" and "2 ^ 52 \<le> r * 2 ^ n" and "r * 2 ^ n < 2 ^ 53" and "n \<le> 1074"
    and "of_int (round_half_even (r * 2 ^ n)) / 2 ^ n = q"
  shows "binary64 r = q"
proof -
  have pos: "0 < r * 2 ^ n" using assms(1) by simp
  have l: "log 2 (r * 2 ^ n) = log 2 r + real n"
    using assms(1) by (simp add: log_mult log_nat_power)
  have l52: "log 2 ((2::real) ^ 52) = 52" and l53: "log 2 ((2::real) ^ 53) = 53"
    by (subst log_nat_power; simp)+
  have "log 2 (2 ^ 52) \<le> log 2 (r * 2 ^ n)"
    using assms(2) pos by (subst log_le_cancel_iff) simp_all
  then have lo: "52 \<le> log 2 r + real n" by (simp only: l l52)
  have "log 2 (r * 2 ^ n) < log 2 (2 ^ 53)"
    using assms(3) pos by (subst log_less_cancel_iff) simp_all
  then have hi: "log 2 r + real n < 53" by (simp only: l l53)
  have "\<lfloor>log 2 r\<rfloor> = 52 - int n"
    by (rule floor_unique) (use lo hi in simp_all)
  then have e: "max (\<lfloor>log 2 \<bar>r\<bar>\<rfloor> - 52) (- 1074) = - int n"
    using assms(1,4) by simp
  have p: "(2::real) powi (- int n) = 1 / 2 ^ n"
    by (simp add: power_int_minus field_simps)
  show ?thesis
    unfolding binary64_def Let_def e p using assms(1) assms(5) by simp
qed

lemma binary64_step_7: "binary64 (7 / 10) = 6305039478318694 / 2 ^ 53"
  by (rule binary64_eval[where n = 53]) (simp_all add: round_half_even_def)

lemma binary64_add_1: "binary64 (0 + (6305039478318694 / 2 ^ 53)) = 6305039478318694 / 2 ^ 53"
  by (rule binary64_eval[where n = 53]) (simp_all add: round_half_even_def)

lemma binary64_add_2: "binary64 ((6305039478318694 / 2 ^ 53) + (6305039478318694 / 2 ^ 53)) = 6305039478318694 / 2 ^ 52"
  by (rule binary64_eval[where n = 52]) (simp_all add: round_half_even_def)

lemma binary64_add_3: "binary64 ((6305039478318694 / 2 ^ 52) + (6305039478318694 / 2 ^ 53)) = 4728779608739020 / 2 ^ 51"
  by (rule binary64_eval[where n = 51]) (simp_all add: round_half_even_def)

lemma binary64_add_4: "binary64 ((4728779608739020 / 2 ^ 51) + (6305039478318694 / 2 ^ 53)) = 6305039478318694 / 2 ^ 51"
  by (rule binary64_eval[where n = 51]) (simp_all add: round_half_even_def)

lemma binary64_add_5: "binary64 ((6305039478318694 / 2 ^ 51) + (6305039478318694 / 2 ^ 53)) = 7881299347898368 / 2 ^ 51"
  by (rule binary64_eval[where n = 51]) (simp_all add: round_half_even_def)

lemma binary64_add_6: "binary64 ((7881299347898368 / 2 ^ 51) + (6305039478318694 / 2 ^ 53)) = 4728779608739021 / 2 ^ 50"
  by (rule binary64_eval[where n = 50]) (simp_all add: round_half_even_def)

lemma binary64_add_7: "binary64 ((4728779608739021 / 2 ^ 50) + (6305039478318694 / 2 ^ 53)) = 5516909543528858 / 2 ^ 50"
  by (rule binary64_eval[where n = 50]) (simp_all add: round_half_even_def)

lemma binary64_add_8: "binary64 ((5516909543528858 / 2 ^ 50) + (6305039478318694 / 2 ^ 53)) = 6305039478318695 / 2 ^ 50"
  by (rule binary64_eval[where n = 50]) (simp_all add: round_half_even_def)

lemma binary64_add_9: "binary64 ((6305039478318695 / 2 ^ 50) + (6305039478318694 / 2 ^ 53)) = 7093169413108532 / 2 ^ 50"
  by (rule binary64_eval[where n = 50]) (simp_all add: round_half_even_def)

lemma binary64_add_10: "binary64 ((7093169413108532 / 2 ^ 50) + (6305039478318694 / 2 ^ 53)) = 7881299347898369 / 2 ^ 50"
  by (rule binary64_eval[where n = 50]) (simp_all add: round_half_even_def)

lemma sampleCount64_iter_1:
  "sampleCount64 7 (6305039478318694 / 2 ^ 53) 0 0 = sampleCount64 7 (6305039478318694 / 2 ^ 53) (6305039478318694 / 2 ^ 53) 1"
proof -
  have le: "0 \<le> (7::real)" by simp
  have n: "(0::nat) + 1 = 1" by simp
  show ?thesis
    by (rule trans[OF sampleCount64.simps]) (simp only: le if_True binary64_add_1 n)
qed

lemma sampleCount64_iter_2:
  "sampleCount64 7 (6305039478318694 / 2 ^ 53) (6305039478318694 / 2 ^ 53) 1 = sampleCount64 7 (6305039478318694 / 2 ^ 53) (6305039478318694 / 2 ^ 52) 2"
proof -
  have le: "(6305039478318694 / 2 ^ 53) \<le> (7::real)" by simp
  have n: "(1::nat) + 1 = 2" by simp
  show ?thesis
    by (rule trans[OF sampleCount64.simps]) (simp only: le if_True binary64_add_2 n)
qed

lemma sampleCount64_iter_3:
  "sampleCount64 7 (6305039478318694 / 2 ^ 53) (6305039478318694 / 2 ^ 52) 2 = sampleCount64 7 (6305039478318694 / 2 ^ 53) (4728779608739020 / 2 ^ 51) 3"
proof -
  have le: "(6305039478318694 / 2 ^ 52) \<le> (7::real)" by simp
  have n: "(2::nat) + 1 = 3" by simp
  show ?thesis
    by (rule trans[OF sampleCount64.simps]) (simp only: le if_True binary64_add_3 n)
qed

lemma sampleCount64_iter_4:
  "sampleCount64 7 (6305039478318694 / 2 ^ 53) (4728779608739020 / 2 ^ 51) 3 = sampleCount64 7 (6305039478318694 / 2 ^ 53) (6305039478318694 / 2 ^ 51) 4"
proof -
  have le: "(4728779608739020 / 2 ^ 51) \<le> (7::real)" by simp
  have n: "(3::nat) + 1 = 4" by simp
  show ?thesis
    by (rule trans[OF sampleCount64.simps]) (simp only: le if_True binary64_add_4 n)
qed

lemma sampleCount64_iter_5:
  "sampleCount64 7 (6305039478318694 / 2 ^ 53) (6305039478318694 / 2 ^ 51) 4 = sampleCount64 7 (6305039478318694 / 2 ^ 53) (7881299347898368 / 2 ^ 51) 5"
proof -
  have le: "(6305039478318694 / 2 ^ 51) \<le> (7::real)" by simp
  have n: "(4::nat) + 1 = 5" by simp
  show ?thesis
    by (rule trans[OF sampleCount64.simps]) (simp only: le if_True binary64_add_5 n)
qed

lemma sampleCount64_iter_6:
  "sampleCount64 7 (6305039478318694 / 2 ^ 53) (7881299347898368 / 2 ^ 51) 5 = sampleCount64 7 (6305039478318694 / 2 ^ 53) (4728779608739021 / 2 ^ 50) 6"
proof -
  have le: "(7881299347898368 / 2 ^ 51) \<le> (7::real)" by simp
  have n: "(5::nat) + 1 = 6" by simp
  show ?thesis
    by (rule trans[OF sampleCount64.simps]) (simp only: le if_True binary64_add_6 n)
qed

lemma sampleCount64_iter_7:
  "sampleCount64 7 (6305039478318694 / 2 ^ 53) (4728779608739021 / 2 ^ 50) 6 = sampleCount64 7 (6305039478318694 / 2 ^ 53) (5516909543528858 / 2 ^ 50) 7"
proof -
  have le: "(4728779608739021 / 2 ^ 50) \<le> (7::real)" by simp
  have n: "(6::nat) + 1 = 7" by simp
  show ?thesis
    by (rule trans[OF sampleCount64.simps]) (simp only: le if_True binary64_add_7 n)
qed

lemma sampleCount64_iter_8:
  "sampleCount64 7 (6305039478318694 / 2 ^ 53) (5516909543528858 / 2 ^ 50) 7 = sampleCount64 7 (6305039478318694 / 2 ^ 53) (6305039478318695 / 2 ^ 50) 8"
proof -
  have le: "(5516909543528858 / 2 ^ 50) \<le> (7::real)" by simp
  have n: "(7::nat) + 1 = 8" by simp
  show ?thesis
    by (rule trans[OF sampleCount64.simps]) (simp only: le if_True binary64_add_8 n)
qed

lemma sampleCount64_iter_9:
  "sampleCount64 7 (6305039478318694 / 2 ^ 53) (6305039478318695 / 2 ^ 50) 8 = sampleCount64 7 (6305039478318694 / 2 ^ 53) (7093169413108532 / 2 ^ 50) 9"
proof -
  have le: "(6305039478318695 / 2 ^ 50) \<le> (7::real)" by simp
  have n: "(8::nat) + 1 = 9" by simp
  show ?thesis
    by (rule trans[OF sampleCount64.simps]) (simp only: le if_True binary64_add_9 n)
qed

lemma sampleCount64_iter_10:
  "sampleCount64 7 (6305039478318694 / 2 ^ 53) (7093169413108532 / 2 ^ 50) 9 = sampleCount64 7 (6305039478318694 / 2 ^ 53) (7881299347898369 / 2 ^ 50) 10"
proof -
  have le: "(7093169413108532 / 2 ^ 50) \<le> (7::real)" by simp
  have n: "(9::nat) + 1 = 10" by simp
  show ?thesis
    by (rule trans[OF sampleCount64.simps]) (simp only: le if_True binary64_add_10 n)
qed

lemma sampleCount64_exit:
  "sampleCount64 7 (6305039478318694 / 2 ^ 53) (7881299347898369 / 2 ^ 50) 10 = Some 10"
proof -
  have gt: "\<not> (7881299347898369 / 2 ^ 50) \<le> (7::real)" by simp
  show ?thesis
    by (rule trans[OF sampleCount64.simps]) (simp only: gt if_False)
qed

text \<open>
  Claim C7 (sample counts: 9, 11 and 1001 points for positive spans). The code does not keep
  it in binary64: for a simply-supported span of \<open>7\<close> the step is the binary64 number next to
  \<open>0.7\<close>, the tenth rounded sum is \<open>7881299347898369 / 2\<^sup>5\<^sup>0\<close>, just above \<open>7\<close>, and the loop
  of the bending-moment method stops after ten samples instead of eleven: the sample at
  \<open>x = 7\<close> is missing.
\<close>

theorem simplySupported_moment_count64_span_7:
  "simplySupported_getBendingMomentEquation_count64 7 = Some 10"
  unfolding simplySupported_getBendingMomentEquation_count64_def Let_def binary64_step_7
  by (simp only: sampleCount64_iter_1 sampleCount64_iter_2 sampleCount64_iter_3 sampleCount64_iter_4 sampleCount64_iter_5 sampleCount64_iter_6 sampleCount64_iter_7 sampleCount64_iter_8 sampleCount64_iter_9 sampleCount64_iter_10 sampleCount64_exit)

section \<open>The facade: dispatch\<close>

lemma analyzer_lookup_constructor: "analyzer_lookup ''constructor'' = Inherited"
  by (simp add: analyzer_lookup_def Object_prototype_properties_def)

lemma analyzer_lookup_three_span: "analyzer_lookup ''three-span'' = Undefined"
  by (simp add: analyzer_lookup_def Object_prototype_properties_def)

lemma facade_three_span:
  "getDeflection b w ''three-span'' = Some (Inl InvalidCondition) \<and>
   getBendingMoment b w ''three-span'' = Some (Inl InvalidCondition) \<and>
   getShearForce b w ''three-span'' = Some (Inl InvalidCondition)"
  by (simp add: getDeflection_def getBendingMoment_def getShearForce_def
      analyzer_lookup_three_span)

lemma facade_invalid_condition_iff:
  "getDeflection b w c = Some (Inl InvalidCondition) \<longleftrightarrow> analyzer_lookup c = Undefined"
  "getBendingMoment b w c = Some (Inl InvalidCondition) \<longleftrightarrow> analyzer_lookup c = Undefined"
  "getShearForce b w c = Some (Inl InvalidCondition) \<longleftrightarrow> analyzer_lookup c = Undefined"
  by (auto simp: getDeflection_def getBendingMoment_def getShearForce_def split: property.splits)

lemma facade_invalid_condition_only_unregistered:
  assumes "getDeflection b w c = Some (Inl InvalidCondition) \<or>
           getBendingMoment b w c = Some (Inl InvalidCondition) \<or>
           getShearForce b w c = Some (Inl InvalidCondition)"
  shows "c \<noteq> ''simply-supported'' \<and> c \<noteq> ''two-span-unequal''"
  using assms unfolding facade_invalid_condition_iff
  by (auto simp: analyzer_lookup_def)

lemma facade_unregistered_not_inherited:
  assumes "c \<noteq> ''simply-supported''" and "c \<noteq> ''two-span-unequal''"
    and "c \<notin> set Object_prototype_properties"
  shows "getDeflection b w c = Some (Inl InvalidCondition)"
    and "getBendingMoment b w c = Some (Inl InvalidCondition)"
    and "getShearForce b w c = Some (Inl InvalidCondition)"
  using assms by (simp_all add: getDeflection_def getBendingMoment_def getShearForce_def
      analyzer_lookup_def)

lemma equation_methods_return:
  assumes "0 < L1" and "0 < L2"
  shows "\<exists>e. simplySupported_getDeflectionEquation (Beam L1 L2 (Material n (Properties EI j2))) w = Some e"
    and "\<exists>e. simplySupported_getBendingMomentEquation (Beam L1 L2 mat) w = Some e"
    and "\<exists>e. simplySupported_getShearForceEquation (Beam L1 L2 mat) w = Some e"
    and "\<exists>e. twoSpanUnequal_getDeflectionEquation (Beam L1 L2 (Material n (Properties EI j2))) w = Some e"
    and "\<exists>e. twoSpanUnequal_getBendingMomentEquation (Beam L1 L2 mat) w = Some e"
    and "\<exists>e. twoSpanUnequal_getShearForceEquation (Beam L1 L2 mat) w = Some e"
proof -
  obtain m r1 r2 r3 where sup: "calculateSupports L1 L2 w = (m, r1, r2, r3)"
    by (cases "calculateSupports L1 L2 w") auto
  have T: "0 < L1 + L2" using assms by linarith
  have n8: "0 < (8::nat)" and n10: "0 < (10::nat)" and n1000: "0 < (1000::nat)" by simp_all
  show "\<exists>e. simplySupported_getDeflectionEquation (Beam L1 L2 (Material n (Properties EI j2))) w = Some e"
    unfolding ss_deflection_eq sampleLoop_even[OF assms(1) n8] by blast
  show "\<exists>e. simplySupported_getBendingMomentEquation (Beam L1 L2 mat) w = Some e"
    unfolding ss_moment_eq sampleLoop_even[OF assms(1) n10] by blast
  show "\<exists>e. simplySupported_getShearForceEquation (Beam L1 L2 mat) w = Some e"
    unfolding ss_shear_eq sampleLoop_even[OF assms(1) n10] by blast
  show "\<exists>e. twoSpanUnequal_getDeflectionEquation (Beam L1 L2 (Material n (Properties EI j2))) w = Some e"
    unfolding ts_deflection_eq[OF sup] sampleLoop_even[OF T n1000] by blast
  show "\<exists>e. twoSpanUnequal_getBendingMomentEquation (Beam L1 L2 mat) w = Some e"
    unfolding ts_moment_eq[OF sup] sampleLoop_even[OF T n1000] by blast
  show "\<exists>e. twoSpanUnequal_getShearForceEquation (Beam L1 L2 mat) w = Some e"
    unfolding ts_shear_eq[OF sup] sampleLoop_even[OF T n1000] by blast
qed

lemma facade_registered_returns:
  assumes "0 < L1" and "0 < L2" and "c = ''simply-supported'' \<or> c = ''two-span-unequal''"
  shows "\<exists>e. getDeflection (Beam L1 L2 (Material n (Properties EI j2))) w c
              = Some (Inr (AnalysisResult (Beam L1 L2 (Material n (Properties EI j2))) w e))"
    and "\<exists>e. getBendingMoment (Beam L1 L2 mat) w c = Some (Inr (AnalysisResult (Beam L1 L2 mat) w e))"
    and "\<exists>e. getShearForce (Beam L1 L2 mat) w c = Some (Inr (AnalysisResult (Beam L1 L2 mat) w e))"
proof -
  note r = equation_methods_return[OF assms(1,2)]
  from assms(3) consider "analyzer_lookup c = Analyzer SimplySupported"
    | "analyzer_lookup c = Analyzer TwoSpanUnequal"
    by (auto simp: analyzer_lookup_def)
  note look = this
  show "\<exists>e. getDeflection (Beam L1 L2 (Material n (Properties EI j2))) w c
              = Some (Inr (AnalysisResult (Beam L1 L2 (Material n (Properties EI j2))) w e))"
  proof (cases rule: look)
    case 1
    from r(1)[of n EI j2 w] obtain e where
      "simplySupported_getDeflectionEquation (Beam L1 L2 (Material n (Properties EI j2))) w = Some e" ..
    then show ?thesis unfolding getDeflection_def 1
      by (simp only: property.case getDeflectionEquation.simps option.map) blast
  next
    case 2
    from r(4)[of n EI j2 w] obtain e where
      "twoSpanUnequal_getDeflectionEquation (Beam L1 L2 (Material n (Properties EI j2))) w = Some e" ..
    then show ?thesis unfolding getDeflection_def 2
      by (simp only: property.case getDeflectionEquation.simps option.map) blast
  qed
  show "\<exists>e. getBendingMoment (Beam L1 L2 mat) w c = Some (Inr (AnalysisResult (Beam L1 L2 mat) w e))"
  proof (cases rule: look)
    case 1
    from r(2)[of mat w] obtain e where
      "simplySupported_getBendingMomentEquation (Beam L1 L2 mat) w = Some e" ..
    then show ?thesis unfolding getBendingMoment_def 1
      by (simp only: property.case getBendingMomentEquation.simps option.map) blast
  next
    case 2
    from r(5)[of mat w] obtain e where
      "twoSpanUnequal_getBendingMomentEquation (Beam L1 L2 mat) w = Some e" ..
    then show ?thesis unfolding getBendingMoment_def 2
      by (simp only: property.case getBendingMomentEquation.simps option.map) blast
  qed
  show "\<exists>e. getShearForce (Beam L1 L2 mat) w c = Some (Inr (AnalysisResult (Beam L1 L2 mat) w e))"
  proof (cases rule: look)
    case 1
    from r(3)[of mat w] obtain e where
      "simplySupported_getShearForceEquation (Beam L1 L2 mat) w = Some e" ..
    then show ?thesis unfolding getShearForce_def 1
      by (simp only: property.case getShearForceEquation.simps option.map) blast
  next
    case 2
    from r(6)[of mat w] obtain e where
      "twoSpanUnequal_getShearForceEquation (Beam L1 L2 mat) w = Some e" ..
    then show ?thesis unfolding getShearForce_def 2
      by (simp only: property.case getShearForceEquation.simps option.map) blast
  qed
qed

text \<open>A span of zero makes the step zero, and the call never returns.\<close>

lemma facade_zero_span_does_not_return:
  "getBendingMoment (Beam 0 s mat) w ''simply-supported'' = None"
  by (simp add: getBendingMoment_def analyzer_lookup_def Let_def sampleLoop_zero_step)

text \<open>
  Claim C9 (a facade operation raises the invalid-condition error exactly for the conditions
  that are not registered, and returns \<open>{beam, load, equation}\<close> for the registered ones).
  The code keeps the second half for beams with positive spans, and raises the
  invalid-condition error for no registered condition. It does not raise it for every
  unregistered one: \<^verbatim>\<open>'constructor'\<close> is not registered, the registry object inherits a
  property of that name, and each of the three operations ends in a \<^verbatim>\<open>TypeError\<close>.
\<close>

theorem facade_inherited_property_is_not_rejected:
  "getDeflection b w ''constructor'' = Some (Inl TypeError) \<and>
   getBendingMoment b w ''constructor'' = Some (Inl TypeError) \<and>
   getShearForce b w ''constructor'' = Some (Inl TypeError) \<and>
   ''constructor'' \<noteq> ''simply-supported'' \<and> ''constructor'' \<noteq> ''two-span-unequal''"
  by (simp add: getDeflection_def getBendingMoment_def getShearForce_def
      analyzer_lookup_constructor)

end
